theory Spec2Isabelle
  imports Main
begin

section \<open>Configuration constants\<close>

text \<open>
  The constants of \<^verbatim>\<open>main.go\<close> (lines 24 to 35). Go strings are byte sequences, so a
  Go string is a \<^typ>\<open>string\<close> here, one \<^typ>\<open>char\<close> for each byte.
\<close>

definition FileExtension :: string where
  "FileExtension = ''.org''"

definition SourceHeader :: string where
  "SourceHeader = ''* For tomorrow''"

definition DestinationHeader :: string where
  "DestinationHeader = ''* TODO''"

definition DaemonOpenRetryTime :: nat where
  "DaemonOpenRetryTime = 5"

definition DoomLoadedMsg :: string where
  "DoomLoadedMsg = ''Doom loaded ''"

definition SuccessMsg :: string where
  "SuccessMsg = ''Success''"

section \<open>The string functions of the Go library that the code calls\<close>

text \<open>
  \<^verbatim>\<open>strings.HasPrefix\<close> and \<^verbatim>\<open>strings.Contains\<close> compare bytes.
\<close>

definition strings_HasPrefix :: "string \<Rightarrow> string \<Rightarrow> bool" where
  "strings_HasPrefix s pre = (take (length pre) s = pre)"

fun strings_Contains :: "string \<Rightarrow> string \<Rightarrow> bool" where
  "strings_Contains [] substr = (substr = [])"
| "strings_Contains (c # s) substr =
     (strings_HasPrefix (c # s) substr \<or> strings_Contains s substr)"

text \<open>
  \<^verbatim>\<open>strings.TrimSpace\<close> removes the leading and the trailing white space, as Unicode
  defines it. \<open>space_runes\<close> lists the UTF-8 encodings of the code points for which
  \<^verbatim>\<open>unicode.IsSpace\<close> holds: tab, line feed, vertical tab, form feed, carriage return,
  space, U+0085, U+00A0, U+1680, U+2000 to U+200A, U+2028, U+2029, U+202F, U+205F and
  U+3000. On well-formed UTF-8 a string starts (ends) with a white space code point
  exactly when it starts (ends) with one of these encodings.
\<close>

definition space_runes :: "string list" where
  "space_runes =
    [[CHR 0x09], [CHR 0x0A], [CHR 0x0B], [CHR 0x0C], [CHR 0x0D], [CHR 0x20],
     [CHR 0xC2, CHR 0x85], [CHR 0xC2, CHR 0xA0],
     [CHR 0xE1, CHR 0x9A, CHR 0x80],
     [CHR 0xE2, CHR 0x80, CHR 0x80], [CHR 0xE2, CHR 0x80, CHR 0x81],
     [CHR 0xE2, CHR 0x80, CHR 0x82], [CHR 0xE2, CHR 0x80, CHR 0x83],
     [CHR 0xE2, CHR 0x80, CHR 0x84], [CHR 0xE2, CHR 0x80, CHR 0x85],
     [CHR 0xE2, CHR 0x80, CHR 0x86], [CHR 0xE2, CHR 0x80, CHR 0x87],
     [CHR 0xE2, CHR 0x80, CHR 0x88], [CHR 0xE2, CHR 0x80, CHR 0x89],
     [CHR 0xE2, CHR 0x80, CHR 0x8A],
     [CHR 0xE2, CHR 0x80, CHR 0xA8], [CHR 0xE2, CHR 0x80, CHR 0xA9],
     [CHR 0xE2, CHR 0x80, CHR 0xAF],
     [CHR 0xE2, CHR 0x81, CHR 0x9F],
     [CHR 0xE3, CHR 0x80, CHR 0x80]]"

text \<open>
  \<open>trim_runes rs s\<close> removes from the front of \<open>s\<close> every leading occurrence of a byte
  sequence of \<open>rs\<close>.
\<close>

fun trim_runes :: "string list \<Rightarrow> string \<Rightarrow> string" where
  "trim_runes rs [] = []"
| "trim_runes rs (c # s) =
     (case List.find (\<lambda>r. r \<noteq> [] \<and> take (length r) (c # s) = r) rs of
        None \<Rightarrow> c # s
      | Some r \<Rightarrow> trim_runes rs (drop (length r - 1) s))"

definition strings_TrimSpace :: "string \<Rightarrow> string" where
  "strings_TrimSpace s =
     rev (trim_runes (map rev space_runes) (rev (trim_runes space_runes s)))"

text \<open>
  \<^verbatim>\<open>bufio.Scanner\<close> with its default split function \<^verbatim>\<open>ScanLines\<close> and its default
  buffer: the input is cut at every line feed, the line feed is not part of the line, one
  trailing carriage return is dropped from each line, and a last line with no line feed is
  a line when it is not empty. The scanner holds at most \<^verbatim>\<open>MaxScanTokenSize\<close> bytes, 64
  KiB: when that many bytes have come with no line feed among them, \<^verbatim>\<open>Scan\<close> returns
  false with the error \<^verbatim>\<open>ErrTooLong\<close>. The code never looks at the error of the scanner,
  so its loops end there as they do at the end of the input: \<open>ScanLines\<close> gives the lines
  before the first line of 65536 bytes or more, and no line from there on. In
  \<open>ScanLines cur s\<close>, \<open>cur\<close> is what has been read of the current line.
\<close>

definition MaxScanTokenSize :: nat where
  "MaxScanTokenSize = 65536"

definition dropCR :: "string \<Rightarrow> string" where
  "dropCR s = (if s \<noteq> [] \<and> last s = CHR 0x0D then butlast s else s)"

fun ScanLines :: "string \<Rightarrow> string \<Rightarrow> string list" where
  "ScanLines cur [] =
     (if cur = [] then []
      else if MaxScanTokenSize \<le> length cur then []
      else [dropCR cur])"
| "ScanLines cur (c # s) =
     (if MaxScanTokenSize \<le> length cur then []
      else if c = CHR 0x0A then dropCR cur # ScanLines [] s
      else ScanLines (cur @ [c]) s)"

text \<open>
  The lines of a text, whatever their length and with their carriage returns: what the
  scanner would give with no limit, before it drops the carriage return.
\<close>

fun text_lines :: "string \<Rightarrow> string \<Rightarrow> string list" where
  "text_lines cur [] = (if cur = [] then [] else [cur])"
| "text_lines cur (c # s) =
     (if c = CHR 0x0A then cur # text_lines [] s else text_lines (cur @ [c]) s)"

text \<open>The other way round: every line followed by a line feed.\<close>

definition joinLines :: "string list \<Rightarrow> string" where
  "joinLines ls = concat (map (\<lambda>l. l @ [CHR 0x0A]) ls)"

section \<open>The file system\<close>

text \<open>
  A path names a regular file with its bytes, a directory, or nothing. What else decides
  whether \<^verbatim>\<open>os.Open\<close> and \<^verbatim>\<open>os.Create\<close> succeed (permissions, a parent directory that
  is missing) is given for each path as the error of the call, if any.
\<close>

datatype node = File string | Dir

datatype errno = ENOENT | EACCES | EISDIR

section \<open>Dates\<close>

text \<open>
  The code reads the clock with \<^verbatim>\<open>time.Now()\<close> and uses only the calendar date of the
  result: \<^verbatim>\<open>Format(DateFormat)\<close> with the layout \<^verbatim>\<open>"2006-01-02"\<close>, and
  \<^verbatim>\<open>AddDate(0, 0, -1)\<close>, the day before.
\<close>

record date =
  year :: nat
  month :: nat
  day :: nat

fun decimal :: "nat \<Rightarrow> string" where
  "decimal n =
     (if n < 10 then [''0123456789'' ! n]
      else decimal (n div 10) @ [''0123456789'' ! (n mod 10)])"

declare decimal.simps [simp del]

definition zero_pad :: "nat \<Rightarrow> string \<Rightarrow> string" where
  "zero_pad n s = replicate (n - length s) (CHR ''0'') @ s"

definition time_Format :: "date \<Rightarrow> string" where
  "time_Format d =
     zero_pad 4 (decimal (year d)) @ ''-'' @ zero_pad 2 (decimal (month d)) @ ''-''
       @ zero_pad 2 (decimal (day d))"

definition leap :: "nat \<Rightarrow> bool" where
  "leap y = (if y mod 400 = 0 then True else if y mod 100 = 0 then False else y mod 4 = 0)"

definition daysIn :: "nat \<Rightarrow> nat \<Rightarrow> nat" where
  "daysIn m y =
     (if m = 2 then (if leap y then 29 else 28)
      else if m = 4 then 30 else if m = 6 then 30 else if m = 9 then 30
      else if m = 11 then 30 else 31)"

definition dayBefore :: "date \<Rightarrow> date" where
  "dayBefore d =
     (if 1 < day d then d\<lparr>day := day d - 1\<rparr>
      else if 1 < month d then d\<lparr>month := month d - 1, day := daysIn (month d - 1) (year d)\<rparr>
      else \<lparr>year = year d - 1, month = 12, day = 31\<rparr>)"

section \<open>Data model\<close>

text \<open>
  \<^verbatim>\<open>Project\<close> and \<^verbatim>\<open>model\<close> as in lines 86 to 104. \<^verbatim>\<open>LastOpened\<close> is a point in
  time, here a number of seconds; the text input widget of the list view belongs to the
  user interface library and is left out.
\<close>

record Project =
  Name :: string
  Path :: string
  Starred :: bool
  LastOpened :: nat
  LastFileCreated :: string
  PreviousFileCreated :: string

record model =
  projects :: "Project list"
  cursor :: int
  addingNew :: bool
  selectedPath :: string
  width :: int
  height :: int
  daemonSpunUp :: bool

section \<open>The world outside the program\<close>

text \<open>
  Everything the code reads from or changes outside its own memory is one record:
  the file system, the clock, the editor backend as the outcome of the n-th run of
  \<^verbatim>\<open>emacsclient\<close>, the project registry as \<^verbatim>\<open>saveConfig\<close> last wrote it (its JSON
  encoding and its place under the user's configuration directory are outside this model),
  and the trace of the effects in the order they happened. Only effects are traced:
  reading a file or asking whether it exists leaves the world as it is.
\<close>

datatype event =
    OsCreate string bool
  | FileWrite string string
  | Sleep nat
  | EmacsClient string string bool
  | Printf string

record world =
  files :: "string \<rightharpoonup> node"
  open_error :: "string \<Rightarrow> errno option"
  create_error :: "string \<Rightarrow> errno option"
  clock :: date
  emacsclient :: "nat \<Rightarrow> bool"
  config :: "Project list option"
  trace :: "event list"

definition os_Stat :: "world \<Rightarrow> string \<Rightarrow> errno + node" where
  "os_Stat w name = (case files w name of None \<Rightarrow> Inl ENOENT | Some n \<Rightarrow> Inr n)"

definition os_Open :: "world \<Rightarrow> string \<Rightarrow> errno + node" where
  "os_Open w name =
     (case files w name of
        None \<Rightarrow> Inl ENOENT
      | Some n \<Rightarrow> (case open_error w name of None \<Rightarrow> Inr n | Some err \<Rightarrow> Inl err))"

text \<open>
  \<^verbatim>\<open>os.Create\<close> makes the file or truncates it. Each call is traced with its outcome.
\<close>

definition os_Create :: "world \<Rightarrow> string \<Rightarrow> errno option \<times> world" where
  "os_Create w name =
     (if files w name = Some Dir
      then (Some EISDIR, w\<lparr>trace := trace w @ [OsCreate name False]\<rparr>)
      else case create_error w name of
             Some err \<Rightarrow> (Some err, w\<lparr>trace := trace w @ [OsCreate name False]\<rparr>)
           | None \<Rightarrow> (None, w\<lparr>files := (files w)(name \<mapsto> File []),
                                 trace := trace w @ [OsCreate name True]\<rparr>))"

text \<open>
  The buffered writer collects what \<^verbatim>\<open>WriteString\<close> is given; \<^verbatim>\<open>Flush\<close> and
  \<^verbatim>\<open>Close\<close> put it in the file. The code ignores the results of these calls, and the
  model takes them to succeed on a file that \<^verbatim>\<open>os.Create\<close> has just opened.
\<close>

definition Flush :: "string \<Rightarrow> string \<Rightarrow> world \<Rightarrow> world" where
  "Flush name buf w =
     w\<lparr>files := (files w)(name \<mapsto> File buf), trace := trace w @ [FileWrite name buf]\<rparr>"

definition saveConfig :: "Project list \<Rightarrow> world \<Rightarrow> world" where
  "saveConfig c w = w\<lparr>config := Some c\<rparr>"

definition time_Sleep :: "nat \<Rightarrow> world \<Rightarrow> world" where
  "time_Sleep seconds w = w\<lparr>trace := trace w @ [Sleep seconds]\<rparr>"

text \<open>
  Reading a file through the scanner: a regular file gives its lines; reading a directory
  fails at once, which ends the scan with no line.
\<close>

fun Scanner_lines :: "node \<Rightarrow> string list" where
  "Scanner_lines (File bytes) = ScanLines [] bytes"
| "Scanner_lines Dir = []"



section \<open>Section extraction\<close>

text \<open>
  The loop of \<^verbatim>\<open>extractSection\<close> (lines 470 to 482) over the lines still to be read, with
  the variables \<^verbatim>\<open>capture\<close> and \<^verbatim>\<open>lines\<close> of the source; \<^verbatim>\<open>continue\<close> is the
  recursive call, \<^verbatim>\<open>break\<close> returns \<^verbatim>\<open>lines\<close>.
\<close>

fun scan_section :: "string \<Rightarrow> bool \<Rightarrow> string list \<Rightarrow> string list \<Rightarrow> string list" where
  "scan_section targetHeader capture lines [] = lines"
| "scan_section targetHeader capture lines (line # rest) =
     (if strings_TrimSpace line = targetHeader
      then scan_section targetHeader True lines rest
      else if capture
        then (if strings_HasPrefix line ''* '' then lines
              else scan_section targetHeader capture (lines @ [line]) rest)
        else scan_section targetHeader capture lines rest)"

definition extractSection :: "world \<Rightarrow> string \<Rightarrow> string \<Rightarrow> string list" where
  "extractSection w filename targetHeader =
     (case os_Open w filename of
        Inl err \<Rightarrow> []
      | Inr file \<Rightarrow> scan_section targetHeader False [] (Scanner_lines file))"



section \<open>Note materialisation\<close>

datatype panic = IndexOutOfRange | LogFileError errno

datatype outcome = Returned world model | Panicked panic world

text \<open>\<^verbatim>\<open>m.projects[m.cursor]\<close>: Go panics when the index is out of range.\<close>

definition current_project :: "model \<Rightarrow> Project option" where
  "current_project m =
     (if 0 \<le> cursor m \<and> cursor m < int (length (projects m))
      then Some (projects m ! nat (cursor m)) else None)"

text \<open>What lines 439 to 448 give to the writer, in the order of the calls.\<close>

definition note_text :: "date \<Rightarrow> string list \<Rightarrow> string" where
  "note_text today contentToMigrate =
     ''#+TITLE: Daily Note '' @ time_Format today @ [CHR 0x0A, CHR 0x0A]
     @ DestinationHeader @ [CHR 0x0A]
     @ (if 0 < length contentToMigrate
        then concat (map (\<lambda>line. line @ [CHR 0x0A]) contentToMigrate)
        else ''  [ ] '' @ [CHR 0x0A])
     @ [CHR 0x0A] @ SourceHeader @ [CHR 0x0A]"

text \<open>Lines 423 to 426: what \<^verbatim>\<open>contentToMigrate\<close> holds after them.\<close>

definition migrated :: "world \<Rightarrow> string \<Rightarrow> string list" where
  "migrated w yesterdayFile =
     (case os_Stat w yesterdayFile of
        Inr fi \<Rightarrow> extractSection w yesterdayFile SourceHeader
      | Inl err \<Rightarrow> [])"

definition createDailyNote :: "string \<Rightarrow> string \<Rightarrow> model \<Rightarrow> world \<Rightarrow> outcome" where
  "createDailyNote todayFile yesterdayFile m w =
     (let contentToMigrate = migrated w yesterdayFile
      in case os_Stat w todayFile of
           Inr tdFile \<Rightarrow> Returned w m
         | Inl err \<Rightarrow>
             (case os_Create w todayFile of
                (Some err, w1) \<Rightarrow> Returned w1 m
              | (None, w1) \<Rightarrow>
                  (let w2 = Flush todayFile (note_text (clock w1) contentToMigrate) w1
                   in case current_project m of
                        None \<Rightarrow> Panicked IndexOutOfRange w2
                      | Some p \<Rightarrow>
                          (let p1 = p\<lparr>PreviousFileCreated := LastFileCreated p\<rparr>;
                               p2 = p1\<lparr>LastFileCreated := todayFile\<rparr>;
                               m1 = m\<lparr>projects := (projects m)[nat (cursor m) := p2]\<rparr>
                           in Returned (saveConfig (projects m1) w2) m1))))"

section \<open>Attaching the editor session\<close>

text \<open>
  \<^verbatim>\<open>openEmacs\<close> runs \<^verbatim>\<open>emacsclient\<close> on the current file and reports whether the run
  ended without error. The second request, for the split view of the previous and the
  current file, is started beside it and its result is dropped; the one trace event
  stands for the call with both paths.
\<close>

definition attempts :: "event list \<Rightarrow> nat" where
  "attempts tr = length (filter (\<lambda>e. case e of EmacsClient c p ok \<Rightarrow> True | _ \<Rightarrow> False) tr)"

definition openEmacs :: "string \<Rightarrow> string \<Rightarrow> world \<Rightarrow> bool \<times> world" where
  "openEmacs currentFilePath previousFilePath w =
     (let ok = emacsclient w (attempts (trace w))
      in (ok, w\<lparr>trace := trace w @ [EmacsClient currentFilePath previousFilePath ok]\<rparr>))"

text \<open>The loop of lines 415 to 418, with its counter \<^verbatim>\<open>i\<close>.\<close>

function retry_loop :: "nat \<Rightarrow> bool \<Rightarrow> string \<Rightarrow> string \<Rightarrow> world \<Rightarrow> bool \<times> world" where
  "retry_loop i emacsHasOpened cur prev w =
     (if \<not> emacsHasOpened \<and> i < 4
      then (case openEmacs cur prev (time_Sleep DaemonOpenRetryTime w) of
              (opened, w1) \<Rightarrow> retry_loop (Suc i) opened cur prev w1)
      else (emacsHasOpened, w))"
  by pat_completeness auto
termination
  by (relation "measure (\<lambda>(i, opened, cur, prev, w). 4 - i)") auto

declare retry_loop.simps [simp del]

text \<open>
  \<^verbatim>\<open>filepath.Join\<close> of a directory and a file name. The program builds for Windows only
  (it sets \<^verbatim>\<open>SysProcAttr.CmdLine\<close>), where the separator is the backslash. The operands
  are taken to be clean, as \<^verbatim>\<open>filepath.Abs\<close> leaves the project path and as a file name
  made of a date and an extension is.
\<close>

definition Separator :: char where
  "Separator = CHR 0x5C"

definition filepath_Join :: "string \<Rightarrow> string \<Rightarrow> string" where
  "filepath_Join dir name =
     (if dir = [] then name
      else if last dir = Separator then dir @ name
      else dir @ [Separator] @ name)"

definition runDailyWorkflow :: "string \<Rightarrow> model \<Rightarrow> world \<Rightarrow> outcome" where
  "runDailyWorkflow projectPath m w =
     (case os_Stat w projectPath of
        Inl ENOENT \<Rightarrow>
          Returned (w\<lparr>trace := trace w @
            [Printf (''Project path does not exist: '' @ projectPath @ [CHR 0x0A])]\<rparr>) m
      | _ \<Rightarrow>
          (let now = clock w;
               todayFilename = time_Format now @ FileExtension
           in case current_project m of
                None \<Rightarrow> Panicked IndexOutOfRange w
              | Some p \<Rightarrow>
                  (let yesterdayPath =
                         (if 0 < length (LastFileCreated p) then LastFileCreated p
                          else filepath_Join projectPath
                                 (time_Format (dayBefore now) @ FileExtension));
                       todayPath = filepath_Join projectPath todayFilename
                   in case createDailyNote todayPath yesterdayPath m w of
                        Panicked f w1 \<Rightarrow> Panicked f w1
                      | Returned w1 m1 \<Rightarrow>
                          (case current_project m1 of
                             None \<Rightarrow> Panicked IndexOutOfRange w1
                           | Some q \<Rightarrow>
                               (case openEmacs (LastFileCreated q) (PreviousFileCreated q) w1 of
                                  (emacsHasOpened, w2) \<Rightarrow>
                                    (case retry_loop 0 emacsHasOpened (LastFileCreated q)
                                            (PreviousFileCreated q) w2 of
                                       (opened, w3) \<Rightarrow> Returned w3 m1))))))"

section \<open>The backend and its diagnostic stream\<close>

text \<open>
  \<^verbatim>\<open>returnChan\<close> is an unbuffered channel: a send ends when the other side receives, and
  never ends once the other side receives no more. A channel is what was received so far
  and the number of receives the other side still makes; the handler of
  \<^verbatim>\<open>StartDaemonMsg\<close> (line 145) makes one.
\<close>

record chan =
  received :: "string list"
  receives :: nat

definition make_chan :: chan where
  "make_chan = \<lparr>received = [], receives = 1\<rparr>"

datatype daemon = Exited world chan | Blocked world chan | Crashed panic world

definition LogFilePath :: string where
  "LogFilePath =
     ''C:'' @ [Separator] @ ''Users'' @ [Separator] @ ''Ramand'' @ [Separator] @ ''Desktop''
       @ [Separator] @ ''goTerminal'' @ [Separator] @ ''firstApp'' @ [Separator]
       @ ''output.log''"

text \<open>The loop of lines 525 to 531 over the lines that the backend writes.\<close>

fun scan_stderr :: "chan \<Rightarrow> world \<Rightarrow> string list \<Rightarrow> daemon" where
  "scan_stderr returnChan w [] = Exited w returnChan"
| "scan_stderr returnChan w (line # rest) =
     (if strings_Contains line DoomLoadedMsg
      then (case receives returnChan of
              0 \<Rightarrow> Blocked w returnChan
            | Suc k \<Rightarrow>
                scan_stderr \<lparr>received = received returnChan @ [SuccessMsg], receives = k\<rparr>
                  w rest)
      else scan_stderr returnChan w rest)"

definition runEmacsDaemon :: "chan \<Rightarrow> string \<Rightarrow> world \<Rightarrow> daemon" where
  "runEmacsDaemon returnChan stderr w =
     (case os_Create w LogFilePath of
        (Some err, w1) \<Rightarrow> Crashed (LogFileError err) w1
      | (None, w1) \<Rightarrow> scan_stderr returnChan w1 (ScanLines [] stderr))"

section \<open>Observations\<close>

text \<open>
  The world an outcome leaves behind, the world after \<^verbatim>\<open>os.Create\<close> has made the log
  file, and counts over a trace.
\<close>

fun world_of :: "outcome \<Rightarrow> world" where
  "world_of (Returned w m) = w"
| "world_of (Panicked f w) = w"


definition file_writes :: "event list \<Rightarrow> nat" where
  "file_writes tr =
     length (filter (\<lambda>e. case e of FileWrite name bytes \<Rightarrow> True | _ \<Rightarrow> False) tr)"

definition os_creates :: "event list \<Rightarrow> event list" where
  "os_creates tr = filter (\<lambda>e. case e of OsCreate name ok \<Rightarrow> True | _ \<Rightarrow> False) tr"

text \<open>
  The note as the specification lists its lines: the title with the date, the marker of
  the to-do section, the migrated lines or one placeholder, an empty line, the marker of
  the unfinished work.
\<close>

definition note_by_spec :: "date \<Rightarrow> string list \<Rightarrow> string" where
  "note_by_spec today ls =
     joinLines ([''#+TITLE: Daily Note '' @ time_Format today, DestinationHeader]
       @ (if ls = [] then [''  [ ] ''] else ls) @ [[], SourceHeader])"

section \<open>Example data\<close>

text \<open>
  A project directory \<open>proj\<close> on the second of January 2024, with the note of the day
  before, a note in which the marker of the unfinished work occurs twice, and a backend
  that no client reaches.
\<close>

definition yesterday_note :: string where
  "yesterday_note =
     joinLines [''#+TITLE: Daily Note 2024-01-01'', [], ''* TODO'', ''  [ ] '', [],
       ''* For tomorrow'', ''- task1'', ''- task2'', ''* Later'', ''- idea'']"

definition twice_note :: string where
  "twice_note =
     joinLines [''* TODO'', ''- x'', ''* For tomorrow'', ''- a'', ''* For tomorrow'', ''- b'',
       ''* TODO'', ''- c'']"

definition example_project :: Project where
  "example_project =
     \<lparr>Name = ''proj'', Path = ''proj'', Starred = False, LastOpened = 0,
      LastFileCreated = ''2024-01-01.org'', PreviousFileCreated = []\<rparr>"

definition example_model :: model where
  "example_model =
     \<lparr>projects = [example_project], cursor = 0, addingNew = False, selectedPath = ''proj'',
      width = 80, height = 24, daemonSpunUp = False\<rparr>"

definition example_world :: world where
  "example_world =
     \<lparr>files = [''proj'' \<mapsto> Dir, ''2024-01-01.org'' \<mapsto> File yesterday_note,
               ''twice.org'' \<mapsto> File twice_note],
      open_error = (\<lambda>name. None),
      create_error = (\<lambda>name. None),
      clock = \<lparr>year = 2024, month = 1, day = 2\<rparr>,
      emacsclient = (\<lambda>n. False),
      config = None,
      trace = []\<rparr>"

text \<open>The same world with a file system that refuses every \<^verbatim>\<open>os.Create\<close>.\<close>

definition readonly_world :: world where
  "readonly_world = example_world\<lparr>create_error := (\<lambda>name. Some EACCES)\<rparr>"

text \<open>
  A machine on which the directory of the log file does not exist, and two diagnostic
  streams of the backend: one with the line that tells that the configuration is loaded,
  one without.
\<close>

definition no_desktop_world :: world where
  "no_desktop_world =
     example_world\<lparr>create_error := (\<lambda>name. if name = LogFilePath then Some ENOENT else None)\<rparr>"

definition doom_stderr :: string where
  "doom_stderr =
     joinLines [''Loading init file'', ''Doom loaded 152 packages across 40 modules in 1.2s'',
       ''Starting Emacs daemon.'']"


text \<open>
  A line of 65536 bytes, a note with two sections of unfinished work that has this line in
  the second, and a note that has it right after the marker; a diagnostic stream in which
  two lines tell that the configuration is loaded, and one in which the long line comes
  before that line.
\<close>

definition long_line :: string where
  "long_line = replicate 65536 (CHR ''x'')"

definition long_section_note :: string where
  "long_section_note =
     joinLines [''* For tomorrow'', ''- a'', ''* For tomorrow'', long_line, ''- b'']"

definition long_first_note :: string where
  "long_first_note = joinLines [''* For tomorrow'', long_line, ''- b'']"

definition long_line_world :: world where
  "long_line_world =
     example_world\<lparr>files := [''long.org'' \<mapsto> File long_section_note,
                               ''first.org'' \<mapsto> File long_first_note]\<rparr>"



section \<open>Properties of the scanner\<close>

lemma ScanLines_full: "MaxScanTokenSize \<le> length cur \<Longrightarrow> ScanLines cur s = []"
  by (cases s) (auto simp: MaxScanTokenSize_def)

text \<open>A line that fits is read whole; at a line that does not fit, the scan is over.\<close>

lemma ScanLines_line:
  "CHR 0x0A \<notin> set l \<Longrightarrow> length (cur @ l) < MaxScanTokenSize \<Longrightarrow>
   ScanLines cur (l @ CHR 0x0A # rest) = dropCR (cur @ l) # ScanLines [] rest"
  by (induction l arbitrary: cur) auto

lemma ScanLines_too_long:
  "CHR 0x0A \<notin> set l \<Longrightarrow> MaxScanTokenSize \<le> length (cur @ l) \<Longrightarrow>
   ScanLines cur (l @ rest) = []"
proof (induction l arbitrary: cur)
  case Nil
  then show ?case by (simp add: ScanLines_full)
next
  case (Cons c l)
  show ?case
  proof (cases "MaxScanTokenSize \<le> length cur")
    case True
    then show ?thesis by (simp add: ScanLines_full)
  next
    case False
    with Cons.prems Cons.IH [of "cur @ [c]"] show ?thesis by auto
  qed
qed

lemma ScanLines_joinLines:
  "ScanLines [] (joinLines []) = []"
  "CHR 0x0A \<notin> set l \<Longrightarrow> length l < MaxScanTokenSize \<Longrightarrow>
   ScanLines [] (joinLines (l # ls)) = dropCR l # ScanLines [] (joinLines ls)"
  "CHR 0x0A \<notin> set l \<Longrightarrow> MaxScanTokenSize \<le> length l \<Longrightarrow>
   ScanLines [] (joinLines (l # ls)) = []"
  using ScanLines_line [of l "[]" "joinLines ls"] ScanLines_too_long [of l "[]" "CHR 0x0A # joinLines ls"]
  by (simp_all add: joinLines_def)

lemma text_lines_line:
  "CHR 0x0A \<notin> set l \<Longrightarrow> text_lines cur (l @ CHR 0x0A # rest) = (cur @ l) # text_lines [] rest"
  by (induction l arbitrary: cur) auto

lemma text_lines_joinLines:
  "\<forall>l \<in> set ls. CHR 0x0A \<notin> set l \<Longrightarrow> text_lines [] (joinLines ls) = ls"
proof (induction ls)
  case Nil
  then show ?case by (simp add: joinLines_def)
next
  case (Cons l ls)
  then have "text_lines [] (joinLines ls) = ls" by simp
  moreover have "joinLines (l # ls) = l @ CHR 0x0A # joinLines ls"
    by (simp add: joinLines_def)
  ultimately show ?case using Cons.prems text_lines_line [of l "[]" "joinLines ls"] by simp
qed




text \<open>The long line of the examples.\<close>

lemma long_line_facts:
  "length long_line = 65536"
  "CHR 0x0A \<notin> set long_line"
  "dropCR long_line = long_line"
  "\<not> strings_HasPrefix long_line ''* ''"
  "long_line \<noteq> []"
  "last long_line = CHR ''x''"
  by (simp_all add: long_line_def dropCR_def strings_HasPrefix_def)

text \<open>The lines of the example notes, as the scanner gives them and as the text has them.\<close>

lemma lines_yesterday_note:
  "ScanLines [] yesterday_note =
     [''#+TITLE: Daily Note 2024-01-01'', [], ''* TODO'', ''  [ ] '', [],
      ''* For tomorrow'', ''- task1'', ''- task2'', ''* Later'', ''- idea'']"
  by (simp add: yesterday_note_def ScanLines_joinLines MaxScanTokenSize_def dropCR_def)

lemma lines_twice_note:
  "ScanLines [] twice_note =
     [''* TODO'', ''- x'', ''* For tomorrow'', ''- a'', ''* For tomorrow'', ''- b'',
      ''* TODO'', ''- c'']"
  by (simp add: twice_note_def ScanLines_joinLines MaxScanTokenSize_def dropCR_def)

lemma lines_long_section_note:
  "ScanLines [] long_section_note = [''* For tomorrow'', ''- a'', ''* For tomorrow'']"
  "text_lines [] long_section_note =
     [''* For tomorrow'', ''- a'', ''* For tomorrow'', long_line, ''- b'']"
  by (simp_all add: long_section_note_def ScanLines_joinLines text_lines_joinLines
      MaxScanTokenSize_def dropCR_def long_line_facts)

lemma lines_long_first_note:
  "ScanLines [] long_first_note = [''* For tomorrow'']"
  "text_lines [] long_first_note = [''* For tomorrow'', long_line, ''- b'']"
  by (simp_all add: long_first_note_def ScanLines_joinLines text_lines_joinLines
      MaxScanTokenSize_def dropCR_def long_line_facts)





section \<open>Properties of section extraction\<close>








text \<open>The example notes, opened, trimmed and extracted.\<close>

lemma open_examples:
  "os_Open example_world ''twice.org'' = Inr (File twice_note)"
  "os_Open example_world ''2024-01-01.org'' = Inr (File yesterday_note)"
  "os_Open long_line_world ''long.org'' = Inr (File long_section_note)"
  "os_Open long_line_world ''first.org'' = Inr (File long_first_note)"
  by (simp_all add: os_Open_def example_world_def long_line_world_def)

lemma trim_examples:
  "strings_TrimSpace ''* TODO'' = ''* TODO''"
  "strings_TrimSpace ''- x'' = ''- x''"
  "strings_TrimSpace ''* For tomorrow'' = ''* For tomorrow''"
  "strings_TrimSpace ''- a'' = ''- a''"
  "strings_TrimSpace ''- b'' = ''- b''"
  "strings_TrimSpace ''#+TITLE: Daily Note 2024-01-01'' = ''#+TITLE: Daily Note 2024-01-01''"
  "strings_TrimSpace [] = []"
  "strings_TrimSpace ''  [ ] '' = ''[ ]''"
  "strings_TrimSpace ''- task1'' = ''- task1''"
  "strings_TrimSpace ''- task2'' = ''- task2''"
  "strings_TrimSpace ''* Later'' = ''* Later''"
  by code_simp+

lemma extract_examples:
  "extractSection example_world ''twice.org'' SourceHeader = [''- a'', ''- b'']"
  "extractSection example_world ''2024-01-01.org'' SourceHeader = [''- task1'', ''- task2'']"
  "extractSection long_line_world ''long.org'' SourceHeader = [''- a'']"
  "extractSection long_line_world ''first.org'' SourceHeader = []"
  by (simp_all add: extractSection_def open_examples lines_twice_note lines_yesterday_note
      lines_long_section_note lines_long_first_note trim_examples SourceHeader_def
      strings_HasPrefix_def)

lemma extractSection_no_file:
  assumes no: "\<forall>bytes. \<not> (files w path = Some (File bytes) \<and> open_error w path = None)"
  shows "extractSection w path marker = []"
proof (cases "files w path")
  case None
  then show ?thesis by (simp add: extractSection_def os_Open_def)
next
  case (Some n)
  show ?thesis
  proof (cases n)
    case (File bytes)
    with Some no have "open_error w path \<noteq> None" by simp
    with Some show ?thesis by (auto simp: extractSection_def os_Open_def)
  next
    case Dir
    with Some show ?thesis
      by (simp add: extractSection_def os_Open_def split: option.splits)
  qed
qed







section \<open>Properties of note materialisation\<close>

text \<open>The three ways through \<^verbatim>\<open>createDailyNote\<close>.\<close>

lemma createDailyNote_existing:
  "files w t = Some n \<Longrightarrow> createDailyNote t y m w = Returned w m"
  by (simp add: createDailyNote_def os_Stat_def)

lemma createDailyNote_refused:
  "files w t = None \<Longrightarrow> create_error w t = Some e \<Longrightarrow>
   createDailyNote t y m w = Returned (w\<lparr>trace := trace w @ [OsCreate t False]\<rparr>) m"
  by (simp add: createDailyNote_def os_Stat_def os_Create_def)

lemma createDailyNote_written:
  "files w t = None \<Longrightarrow> create_error w t = None \<Longrightarrow> current_project m = Some p \<Longrightarrow>
   createDailyNote t y m w =
     Returned
       (w\<lparr>files := (files w)(t \<mapsto> File (note_text (clock w) (migrated w y))),
          trace := trace w @ [OsCreate t True, FileWrite t (note_text (clock w) (migrated w y))],
          config := Some ((projects m)[nat (cursor m) :=
                      p\<lparr>PreviousFileCreated := LastFileCreated p, LastFileCreated := t\<rparr>])\<rparr>)
       (m\<lparr>projects := (projects m)[nat (cursor m) :=
            p\<lparr>PreviousFileCreated := LastFileCreated p, LastFileCreated := t\<rparr>]\<rparr>)"
  by (simp add: createDailyNote_def os_Stat_def os_Create_def Flush_def saveConfig_def Let_def)

lemma example_facts:
  "files example_world ''2024-01-02.org'' = None"
  "create_error example_world ''2024-01-02.org'' = None"
  "current_project example_model = Some example_project"
  by (simp_all add: example_world_def example_model_def current_project_def)

text \<open>
  Claim C7. For a path that names no regular file that can be opened (nothing there, a
  directory, or a file that \<^verbatim>\<open>os.Open\<close> refuses), \<^verbatim>\<open>extractSection\<close> returns no line and
  no error; and \<^verbatim>\<open>createDailyNote\<close> with such a reference note goes on as with nothing to
  migrate: where today's note can be made, it returns and the note is the one for an
  empty migration.
\<close>

theorem missing_reference_note_is_silent:
  assumes "\<forall>bytes. \<not> (files w path = Some (File bytes) \<and> open_error w path = None)"
  shows "extractSection w path marker = [] \<and>
         (files w todayFile = None \<and> create_error w todayFile = None \<and>
          current_project m = Some p \<longrightarrow>
            (\<exists>w1 m1. createDailyNote todayFile path m w = Returned w1 m1 \<and>
                      files w1 todayFile = Some (File (note_text (clock w) []))))"
proof -
  have none: "extractSection w path x = []" for x
    using assms by (rule extractSection_no_file)
  then have "migrated w path = []"
    by (simp add: migrated_def split: sum.splits)
  then show ?thesis
    using none by (auto simp: createDailyNote_written)
qed

theorem missing_reference_note_is_silent_witness:
  "extractSection example_world ''2023-12-31.org'' SourceHeader = [] \<and>
   (\<exists>w1 m1. createDailyNote ''2024-01-02.org'' ''2023-12-31.org'' example_model example_world
        = Returned w1 m1 \<and>
      files w1 ''2024-01-02.org'' = Some (File (note_text (clock example_world) [])))"
proof -
  have 1: "\<forall>bytes. \<not> (files example_world ''2023-12-31.org'' = Some (File bytes) \<and>
      open_error example_world ''2023-12-31.org'' = None)"
    by (simp add: example_world_def)
  from missing_reference_note_is_silent [OF 1, of SourceHeader "''2024-01-02.org''"
      example_model example_project] example_facts
  show ?thesis by blast
qed

section \<open>Properties of the date format\<close>

lemma zero_pad_known:
  "zero_pad 2 [a] = [CHR ''0'', a]"
  "zero_pad 2 [a, b] = [a, b]"
  "zero_pad 4 [a] = [CHR ''0'', CHR ''0'', CHR ''0'', a]"
  "zero_pad 4 [a, b] = [CHR ''0'', CHR ''0'', a, b]"
  "zero_pad 4 [a, b, c] = [CHR ''0'', a, b, c]"
  "zero_pad 4 [a, b, c, e] = [a, b, c, e]"
  by (simp_all add: zero_pad_def eval_nat_numeral)

lemma decimal_small: "n < 10 \<Longrightarrow> decimal n = [''0123456789'' ! n]"
  by (subst decimal.simps) simp

lemma decimal_step:
  "\<not> n < 10 \<Longrightarrow> decimal n = decimal (n div 10) @ [''0123456789'' ! (n mod 10)]"
  by (subst decimal.simps) simp

lemma two_digits:
  assumes "n < 100"
  shows "zero_pad 2 (decimal n) = [''0123456789'' ! (n div 10), ''0123456789'' ! (n mod 10)]"
proof (cases "n < 10")
  case True
  then show ?thesis by (simp add: decimal_small zero_pad_known)
next
  case False
  with assms have "n div 10 < 10" by simp
  with False show ?thesis
    by (simp add: decimal_step decimal_small zero_pad_known)
qed

lemma four_digits:
  assumes "n < 10000"
  shows "zero_pad 4 (decimal n) =
    [''0123456789'' ! (n div 1000), ''0123456789'' ! (n div 100 mod 10),
     ''0123456789'' ! (n div 10 mod 10), ''0123456789'' ! (n mod 10)]"
proof -
  have h: "n div 10 div 10 = n div 100" "n div 100 div 10 = n div 1000"
    by (simp_all add: div_mult2_eq [symmetric])
  consider "n < 10" | "\<not> n < 10" "n < 100" | "\<not> n < 100" "n < 1000" | "\<not> n < 1000"
    by linarith
  then show ?thesis
  proof cases
    case 1
    then have "decimal n = [''0123456789'' ! n]" by (rule decimal_small)
    with 1 show ?thesis by (simp add: zero_pad_known)
  next
    case 2
    then have "n div 10 < 10" by simp
    with 2 have "decimal n = [''0123456789'' ! (n div 10), ''0123456789'' ! (n mod 10)]"
      by (simp add: decimal_step decimal_small)
    with 2 show ?thesis by (simp add: zero_pad_known)
  next
    case 3
    then have a: "\<not> n < 10" "\<not> n div 10 < 10" "n div 100 < 10" by auto
    have "decimal n = decimal (n div 10) @ [''0123456789'' ! (n mod 10)]"
      using a(1) by (rule decimal_step)
    also have "decimal (n div 10) = decimal (n div 100) @ [''0123456789'' ! (n div 10 mod 10)]"
      using decimal_step [OF a(2)] by (simp only: h)
    also have "decimal (n div 100) = [''0123456789'' ! (n div 100)]"
      using a(3) by (rule decimal_small)
    finally have "decimal n = [''0123456789'' ! (n div 100), ''0123456789'' ! (n div 10 mod 10),
        ''0123456789'' ! (n mod 10)]" by simp
    moreover from 3 have "n div 1000 = 0" "n div 100 mod 10 = n div 100" by auto
    ultimately show ?thesis by (simp add: zero_pad_known)
  next
    case 4
    with assms have a: "\<not> n < 10" "\<not> n div 10 < 10" "\<not> n div 100 < 10" "n div 1000 < 10"
      by auto
    have "decimal n = decimal (n div 10) @ [''0123456789'' ! (n mod 10)]"
      using a(1) by (rule decimal_step)
    also have "decimal (n div 10) = decimal (n div 100) @ [''0123456789'' ! (n div 10 mod 10)]"
      using decimal_step [OF a(2)] by (simp only: h)
    also have "decimal (n div 100) = decimal (n div 1000) @ [''0123456789'' ! (n div 100 mod 10)]"
      using decimal_step [OF a(3)] by (simp only: h)
    also have "decimal (n div 1000) = [''0123456789'' ! (n div 1000)]"
      using a(4) by (rule decimal_small)
    finally have "decimal n = [''0123456789'' ! (n div 1000), ''0123456789'' ! (n div 100 mod 10),
        ''0123456789'' ! (n div 10 mod 10), ''0123456789'' ! (n mod 10)]" by simp
    then show ?thesis by (simp add: zero_pad_known)
  qed
qed

lemma time_Format_digits:
  assumes "year d < 10000" "month d < 100" "day d < 100"
  shows "time_Format d =
    [''0123456789'' ! (year d div 1000), ''0123456789'' ! (year d div 100 mod 10),
     ''0123456789'' ! (year d div 10 mod 10), ''0123456789'' ! (year d mod 10), CHR ''-'',
     ''0123456789'' ! (month d div 10), ''0123456789'' ! (month d mod 10), CHR ''-'',
     ''0123456789'' ! (day d div 10), ''0123456789'' ! (day d mod 10)]"
  using assms by (simp add: time_Format_def four_digits two_digits)

section \<open>The note that is written\<close>

lemma migrated_eq: "migrated w y = extractSection w y SourceHeader"
  by (simp add: migrated_def os_Stat_def extractSection_def os_Open_def split: option.splits)

lemma note_text_lines:
  "note_text d ls =
     joinLines ([''#+TITLE: Daily Note '' @ time_Format d, [], DestinationHeader]
       @ (if ls = [] then [''  [ ] ''] else ls) @ [[], SourceHeader])"
  by (simp add: note_text_def joinLines_def)

lemma createDailyNote_file:
  assumes "files w t = None" and "create_error w t = None"
  shows "files (world_of (createDailyNote t y m w)) t =
         Some (File (note_text (clock w) (migrated w y)))"
  using assms
  by (cases "current_project m")
     (simp_all add: createDailyNote_def os_Stat_def os_Create_def Flush_def saveConfig_def Let_def)

text \<open>
  Claim C1. Where something exists at \<^verbatim>\<open>todayFile\<close>, \<^verbatim>\<open>createDailyNote\<close> returns the world
  and the model it was given: no write, the file as it was, \<^verbatim>\<open>LastFileCreated\<close> and
  \<^verbatim>\<open>PreviousFileCreated\<close> as they were. So of two calls in a row for a \<^verbatim>\<open>todayFile\<close> that
  the first call makes, the second changes nothing, and the two together write one file.
\<close>

theorem createDailyNote_idempotent:
  "(files w todayFile \<noteq> None \<longrightarrow> createDailyNote todayFile yesterdayFile m w = Returned w m) \<and>
   (files w todayFile = None \<and> create_error w todayFile = None \<and> current_project m \<noteq> None \<longrightarrow>
      (\<exists>w1 m1. createDailyNote todayFile yesterdayFile m w = Returned w1 m1 \<and>
         createDailyNote todayFile referenceFile m1 w1 = Returned w1 m1 \<and>
         files w1 todayFile \<noteq> None \<and>
         file_writes (trace w1) = file_writes (trace w) + 1))"
proof (intro conjI impI)
  assume "files w todayFile \<noteq> None"
  then show "createDailyNote todayFile yesterdayFile m w = Returned w m"
    by (auto simp: createDailyNote_existing)
next
  assume a: "files w todayFile = None \<and> create_error w todayFile = None \<and>
    current_project m \<noteq> None"
  then obtain p where p: "current_project m = Some p" by auto
  from a p createDailyNote_written [of w todayFile m p yesterdayFile]
  obtain w1 m1 where first: "createDailyNote todayFile yesterdayFile m w = Returned w1 m1"
    and f: "files w1 todayFile = Some (File (note_text (clock w) (migrated w yesterdayFile)))"
    and t: "trace w1 = trace w @ [OsCreate todayFile True,
              FileWrite todayFile (note_text (clock w) (migrated w yesterdayFile))]"
    by simp
  from f have "createDailyNote todayFile referenceFile m1 w1 = Returned w1 m1"
    by (rule createDailyNote_existing)
  moreover from t have "file_writes (trace w1) = file_writes (trace w) + 1"
    by (simp add: file_writes_def)
  ultimately show "\<exists>w1 m1. createDailyNote todayFile yesterdayFile m w = Returned w1 m1 \<and>
      createDailyNote todayFile referenceFile m1 w1 = Returned w1 m1 \<and>
      files w1 todayFile \<noteq> None \<and>
      file_writes (trace w1) = file_writes (trace w) + 1"
    using first f by auto
qed

theorem createDailyNote_idempotent_witness:
  "createDailyNote ''2024-01-01.org'' ''2023-12-31.org'' example_model example_world
     = Returned example_world example_model \<and>
   (\<exists>w1 m1. createDailyNote ''2024-01-02.org'' ''2024-01-01.org'' example_model example_world
        = Returned w1 m1 \<and>
      createDailyNote ''2024-01-02.org'' ''2024-01-02.org'' m1 w1 = Returned w1 m1 \<and>
      file_writes (trace w1) = 1)"
proof -
  have 1: "files example_world ''2024-01-01.org'' \<noteq> None"
    by (simp add: example_world_def)
  have 2: "files example_world ''2024-01-02.org'' = None \<and>
      create_error example_world ''2024-01-02.org'' = None \<and>
      current_project example_model \<noteq> None"
    by (simp add: example_facts)
  have 3: "file_writes (trace example_world) = 0"
    by (simp add: example_world_def file_writes_def)
  from createDailyNote_idempotent [of example_world "''2024-01-01.org''" "''2023-12-31.org''"
      example_model] 1
  have a: "createDailyNote ''2024-01-01.org'' ''2023-12-31.org'' example_model example_world
     = Returned example_world example_model"
    by blast
  from createDailyNote_idempotent [of example_world "''2024-01-02.org''" "''2024-01-01.org''"
      example_model "''2024-01-02.org''"] 2 3
  have "\<exists>w1 m1. createDailyNote ''2024-01-02.org'' ''2024-01-01.org'' example_model example_world
        = Returned w1 m1 \<and>
      createDailyNote ''2024-01-02.org'' ''2024-01-02.org'' m1 w1 = Returned w1 m1 \<and>
      file_writes (trace w1) = 1"
    by auto
  with a show ?thesis by blast
qed

text \<open>
  Claim C4, as stated: the file is the title line, the marker of the to-do section, the
  migrated lines or one placeholder, an empty line and the marker of the unfinished work,
  and nothing else. The file that the code writes has one more line: the format of the
  title ends in two line feeds, so an empty line stands between the title and the marker
  of the to-do section.
\<close>

theorem createDailyNote_blank_after_title_counterexample:
  "files (world_of (createDailyNote ''2024-01-02.org'' ''2024-01-01.org'' example_model
       example_world)) ''2024-01-02.org''
     = Some (File (joinLines [''#+TITLE: Daily Note 2024-01-02'', [], ''* TODO'', ''- task1'',
         ''- task2'', [], ''* For tomorrow''])) \<and>
   note_by_spec (clock example_world) [''- task1'', ''- task2'']
     = joinLines [''#+TITLE: Daily Note 2024-01-02'', ''* TODO'', ''- task1'', ''- task2'', [],
         ''* For tomorrow''] \<and>
   files (world_of (createDailyNote ''2024-01-02.org'' ''2024-01-01.org'' example_model
       example_world)) ''2024-01-02.org''
     \<noteq> Some (File (note_by_spec (clock example_world) [''- task1'', ''- task2'']))"
proof -
  have d: "time_Format (clock example_world) = ''2024-01-02''"
    by code_simp
  have 1: "files (world_of (createDailyNote ''2024-01-02.org'' ''2024-01-01.org'' example_model
       example_world)) ''2024-01-02.org''
     = Some (File (joinLines [''#+TITLE: Daily Note 2024-01-02'', [], ''* TODO'', ''- task1'',
         ''- task2'', [], ''* For tomorrow'']))"
    using createDailyNote_file [OF example_facts(1) example_facts(2), of "''2024-01-01.org''"
        example_model]
    by (simp add: migrated_eq extract_examples [unfolded SourceHeader_def] note_text_lines d
        DestinationHeader_def SourceHeader_def)
  have 2: "note_by_spec (clock example_world) [''- task1'', ''- task2'']
     = joinLines [''#+TITLE: Daily Note 2024-01-02'', ''* TODO'', ''- task1'', ''- task2'', [],
         ''* For tomorrow'']"
    by (simp add: note_by_spec_def d DestinationHeader_def SourceHeader_def)
  show ?thesis unfolding 1 2 by (simp add: joinLines_def)
qed

text \<open>
  Claim C4, amended: whenever \<^verbatim>\<open>createDailyNote\<close> makes today's note, the file is, in this
  order, the title line with today's date, an empty line, the marker line of the to-do
  section, the migrated lines of the unfinished work as they are and in their order, or
  one placeholder line with an empty checkbox when nothing was migrated, an empty line,
  and the marker line of the unfinished work with nothing under it. The date is four
  digits of the year, two of the month and two of the day, with hyphens between.
\<close>

theorem createDailyNote_note_lines:
  assumes "files w todayFile = None" and "create_error w todayFile = None"
  shows "files (world_of (createDailyNote todayFile yesterdayFile m w)) todayFile =
     Some (File (joinLines
       ([''#+TITLE: Daily Note '' @ time_Format (clock w), [], DestinationHeader]
        @ (if extractSection w yesterdayFile SourceHeader = [] then [''  [ ] '']
           else extractSection w yesterdayFile SourceHeader)
        @ [[], SourceHeader])))
     \<and> (year (clock w) < 10000 \<and> month (clock w) < 100 \<and> day (clock w) < 100 \<longrightarrow>
          time_Format (clock w) =
            [''0123456789'' ! (year (clock w) div 1000),
             ''0123456789'' ! (year (clock w) div 100 mod 10),
             ''0123456789'' ! (year (clock w) div 10 mod 10),
             ''0123456789'' ! (year (clock w) mod 10), CHR ''-'',
             ''0123456789'' ! (month (clock w) div 10),
             ''0123456789'' ! (month (clock w) mod 10), CHR ''-'',
             ''0123456789'' ! (day (clock w) div 10),
             ''0123456789'' ! (day (clock w) mod 10)])"
  using createDailyNote_file [OF assms, of yesterdayFile m] time_Format_digits [of "clock w"]
  by (simp only: migrated_eq note_text_lines) blast

theorem createDailyNote_note_lines_witness:
  "files (world_of (createDailyNote ''2024-01-02.org'' ''2024-01-01.org'' example_model
       example_world)) ''2024-01-02.org''
     = Some (File (joinLines [''#+TITLE: Daily Note 2024-01-02'', [], ''* TODO'', ''- task1'',
         ''- task2'', [], ''* For tomorrow''])) \<and>
   files (world_of (createDailyNote ''2024-01-02.org'' ''2023-12-31.org'' example_model
       example_world)) ''2024-01-02.org''
     = Some (File (joinLines [''#+TITLE: Daily Note 2024-01-02'', [], ''* TODO'', ''  [ ] '',
         [], ''* For tomorrow'']))"
proof -
  have 1: "extractSection example_world ''2024-01-01.org'' SourceHeader = [''- task1'', ''- task2'']"
    by (rule extract_examples)
  have 2: "extractSection example_world ''2023-12-31.org'' SourceHeader = []"
    by (simp add: extractSection_def os_Open_def example_world_def)
  have 3: "time_Format (clock example_world) = ''2024-01-02''"
    by code_simp
  show ?thesis
    using createDailyNote_note_lines [OF example_facts(1) example_facts(2),
        of "''2024-01-01.org''" example_model]
      createDailyNote_note_lines [OF example_facts(1) example_facts(2),
        of "''2023-12-31.org''" example_model]
    by (simp add: 1 [unfolded SourceHeader_def] 2 [unfolded SourceHeader_def] 3
        DestinationHeader_def SourceHeader_def)
qed

text \<open>
  Claim C5. Whenever \<^verbatim>\<open>createDailyNote\<close> makes the note at \<^verbatim>\<open>todayFile\<close>, the model it
  returns differs from the one it was given in the selected project only:
  \<^verbatim>\<open>PreviousFileCreated\<close> holds the former \<^verbatim>\<open>LastFileCreated\<close>, and \<^verbatim>\<open>LastFileCreated\<close>
  holds \<^verbatim>\<open>todayFile\<close>; the projects are saved so.
\<close>

theorem createDailyNote_linkage_shift:
  assumes "files w todayFile = None" and "create_error w todayFile = None"
    and "current_project m = Some p"
  shows "\<exists>w1. createDailyNote todayFile yesterdayFile m w =
           Returned w1 (m\<lparr>projects := (projects m)[nat (cursor m) :=
             p\<lparr>PreviousFileCreated := LastFileCreated p, LastFileCreated := todayFile\<rparr>]\<rparr>) \<and>
         config w1 = Some ((projects m)[nat (cursor m) :=
             p\<lparr>PreviousFileCreated := LastFileCreated p, LastFileCreated := todayFile\<rparr>])"
  using createDailyNote_written [OF assms, of yesterdayFile] by simp

theorem createDailyNote_linkage_shift_witness:
  "\<exists>w1. createDailyNote ''2024-01-02.org'' ''2024-01-01.org'' example_model example_world =
     Returned w1 (example_model\<lparr>projects :=
       [\<lparr>Name = ''proj'', Path = ''proj'', Starred = False, LastOpened = 0,
         LastFileCreated = ''2024-01-02.org'', PreviousFileCreated = ''2024-01-01.org''\<rparr>]\<rparr>)"
  using createDailyNote_linkage_shift [OF example_facts, of "''2024-01-01.org''"]
  by (auto simp: example_model_def example_project_def)

section \<open>Properties of the workflow\<close>

lemma openEmacs_eq:
  "openEmacs c p w =
     (emacsclient w (attempts (trace w)),
      w\<lparr>trace := trace w @ [EmacsClient c p (emacsclient w (attempts (trace w)))]\<rparr>)"
  by (simp add: openEmacs_def Let_def)

text \<open>The retry loop touches neither the files nor the saved projects.\<close>

lemma retry_loop_keeps:
  "retry_loop i opened c p w = (opened', w') \<Longrightarrow>
   files w' = files w \<and> config w' = config w \<and> os_creates (trace w') = os_creates (trace w)"
proof (induction i opened c p w rule: retry_loop.induct)
  case (1 i emacsHasOpened cur prev w)
  show ?case
  proof (cases "\<not> emacsHasOpened \<and> i < 4")
    case True
    let ?w0 = "time_Sleep DaemonOpenRetryTime w"
    let ?ok = "emacsclient ?w0 (attempts (trace ?w0))"
    let ?w1 = "?w0\<lparr>trace := trace ?w0 @ [EmacsClient cur prev ?ok]\<rparr>"
    have oe: "(?ok, ?w1) = openEmacs cur prev ?w0" by (simp add: openEmacs_eq)
    from "1.prems" True have "retry_loop (Suc i) ?ok cur prev ?w1 = (opened', w')"
      by (subst (asm) retry_loop.simps) (simp add: openEmacs_eq)
    from "1.IH" [OF True oe this] show ?thesis
      by (simp add: time_Sleep_def os_creates_def)
  next
    case False
    with "1.prems" show ?thesis
      by (subst (asm) retry_loop.simps) auto
  qed
qed

text \<open>
  With a backend that no client reaches, the loop runs until its counter is 4: from the
  counter \<open>i\<close> it sleeps and tries \<open>4 - i\<close> times.
\<close>

lemma retry_loop_never:
  assumes "\<forall>n. \<not> emacsclient w n"
  shows "4 - i = k \<Longrightarrow> retry_loop i False c p w =
    (False, w\<lparr>trace := trace w @
       concat (replicate k [Sleep DaemonOpenRetryTime, EmacsClient c p False])\<rparr>)"
  using assms
proof (induction k arbitrary: i w)
  case 0
  then show ?case by (subst retry_loop.simps) simp
next
  case (Suc k)
  let ?w1 = "w\<lparr>trace := trace w @ [Sleep DaemonOpenRetryTime, EmacsClient c p False]\<rparr>"
  from Suc.prems have i: "i < 4" "4 - Suc i = k" by auto
  have never: "\<forall>n. \<not> emacsclient ?w1 n" using Suc.prems by simp
  have "retry_loop i False c p w = retry_loop (Suc i) False c p ?w1"
    using i(1) Suc.prems(2) by (subst retry_loop.simps) (simp add: openEmacs_eq time_Sleep_def)
  also have "\<dots> = (False, ?w1\<lparr>trace := trace ?w1 @
       concat (replicate k [Sleep DaemonOpenRetryTime, EmacsClient c p False])\<rparr>)"
    using Suc.IH [OF i(2) never] .
  finally show ?case by simp
qed

text \<open>
  Whatever way \<^verbatim>\<open>createDailyNote\<close> takes, with a cursor in range it returns, the cursor is
  still in range, and no client was run.
\<close>

lemma createDailyNote_returns:
  assumes "current_project m = Some p"
  shows "\<exists>w1 m1 q. createDailyNote t y m w = Returned w1 m1 \<and> current_project m1 = Some q \<and>
           emacsclient w1 = emacsclient w \<and> attempts (trace w1) = attempts (trace w)"
proof (cases "files w t")
  case (Some n)
  with assms show ?thesis by (simp add: createDailyNote_existing)
next
  case None
  show ?thesis
  proof (cases "create_error w t")
    case (Some e)
    with None assms show ?thesis
      by (simp add: createDailyNote_refused attempts_def)
  next
    case no: None
    let ?p = "p\<lparr>PreviousFileCreated := LastFileCreated p, LastFileCreated := t\<rparr>"
    from assms have "current_project (m\<lparr>projects := (projects m)[nat (cursor m) := ?p]\<rparr>) = Some ?p"
      by (auto simp: current_project_def split: if_splits)
    with None no assms show ?thesis
      by (simp add: createDailyNote_written attempts_def)
  qed
qed

text \<open>
  Claim C6. Where nothing exists at \<^verbatim>\<open>todayFile\<close> and \<^verbatim>\<open>os.Create\<close> fails there,
  \<^verbatim>\<open>createDailyNote\<close> returns the model as it was given, \<^verbatim>\<open>LastFileCreated\<close> and
  \<^verbatim>\<open>PreviousFileCreated\<close> included, and a world in which the one failed call is all that
  happened. The workflow does not try again: in a whole run of \<^verbatim>\<open>runDailyWorkflow\<close> with
  this outcome, the failed call is the only \<^verbatim>\<open>os.Create\<close>, and files, saved projects and
  model end as they began.
\<close>

theorem createDailyNote_create_fails:
  assumes "files w todayFile = None" and "create_error w todayFile = Some err"
  shows "createDailyNote todayFile yesterdayFile m w =
           Returned (w\<lparr>trace := trace w @ [OsCreate todayFile False]\<rparr>) m \<and>
         (files w projectPath \<noteq> None \<and> current_project m \<noteq> None \<and>
          todayFile = filepath_Join projectPath (time_Format (clock w) @ FileExtension) \<longrightarrow>
            (\<exists>w'. runDailyWorkflow projectPath m w = Returned w' m \<and>
                   files w' = files w \<and> config w' = config w \<and>
                   os_creates (trace w') = os_creates (trace w) @ [OsCreate todayFile False]))"
proof (intro conjI impI)
  show "createDailyNote todayFile yesterdayFile m w =
      Returned (w\<lparr>trace := trace w @ [OsCreate todayFile False]\<rparr>) m"
    using assms by (rule createDailyNote_refused)
next
  assume a: "files w projectPath \<noteq> None \<and> current_project m \<noteq> None \<and>
    todayFile = filepath_Join projectPath (time_Format (clock w) @ FileExtension)"
  then obtain n p where n: "files w projectPath = Some n" and p: "current_project m = Some p"
    and t: "filepath_Join projectPath (time_Format (clock w) @ FileExtension) = todayFile"
    by auto
  let ?w1 = "w\<lparr>trace := trace w @ [OsCreate todayFile False]\<rparr>"
  let ?cur = "LastFileCreated p" and ?prev = "PreviousFileCreated p"
  obtain opened w3 where r: "retry_loop 0 (fst (openEmacs ?cur ?prev ?w1)) ?cur ?prev
      (snd (openEmacs ?cur ?prev ?w1)) = (opened, w3)"
    by force
  from retry_loop_keeps [OF r]
  have keep: "files w3 = files w" "config w3 = config w"
    "os_creates (trace w3) = os_creates (trace w) @ [OsCreate todayFile False]"
    by (simp_all add: openEmacs_eq os_creates_def)
  have "runDailyWorkflow projectPath m w = Returned w3 m"
    using n p r assms
    by (simp add: runDailyWorkflow_def os_Stat_def t createDailyNote_refused split_beta Let_def)
  with keep show "\<exists>w'. runDailyWorkflow projectPath m w = Returned w' m \<and>
      files w' = files w \<and> config w' = config w \<and>
      os_creates (trace w') = os_creates (trace w) @ [OsCreate todayFile False]"
    by blast
qed

theorem createDailyNote_create_fails_witness:
  "createDailyNote ''2024-01-02.org'' ''2024-01-01.org'' example_model readonly_world =
     Returned (readonly_world\<lparr>trace := trace readonly_world @ [OsCreate ''2024-01-02.org'' False]\<rparr>)
       example_model"
proof -
  have 1: "files readonly_world ''2024-01-02.org'' = None"
    by (simp add: readonly_world_def example_world_def)
  have 2: "create_error readonly_world ''2024-01-02.org'' = Some EACCES"
    by (simp add: readonly_world_def)
  from createDailyNote_create_fails [OF 1 2] show ?thesis by blast
qed

text \<open>
  The attach phase with a backend that no client reaches: a first attempt, and the loop
  with its 4 rounds.
\<close>

lemma workflow_attach_trace:
  assumes "\<forall>n. \<not> emacsclient w n" and "files w projectPath \<noteq> None"
    and "current_project m \<noteq> None"
  shows "\<exists>w' m' q tr. runDailyWorkflow projectPath m w = Returned w' m' \<and>
           current_project m' = Some q \<and>
           trace w' = tr @
             [EmacsClient (LastFileCreated q) (PreviousFileCreated q) False,
              Sleep DaemonOpenRetryTime,
              EmacsClient (LastFileCreated q) (PreviousFileCreated q) False,
              Sleep DaemonOpenRetryTime,
              EmacsClient (LastFileCreated q) (PreviousFileCreated q) False,
              Sleep DaemonOpenRetryTime,
              EmacsClient (LastFileCreated q) (PreviousFileCreated q) False,
              Sleep DaemonOpenRetryTime,
              EmacsClient (LastFileCreated q) (PreviousFileCreated q) False] \<and>
           attempts tr = attempts (trace w) \<and>
           attempts (trace w') = attempts (trace w) + 5"
proof -
  from assms obtain n p where n: "files w projectPath = Some n"
    and p: "current_project m = Some p" by auto
  let ?y = "if 0 < length (LastFileCreated p) then LastFileCreated p
            else filepath_Join projectPath (time_Format (dayBefore (clock w)) @ FileExtension)"
  let ?t = "filepath_Join projectPath (time_Format (clock w) @ FileExtension)"
  from createDailyNote_returns [OF p, of ?t ?y w]
  obtain w1 m1 q where c: "createDailyNote ?t ?y m w = Returned w1 m1"
    and q: "current_project m1 = Some q"
    and e: "emacsclient w1 = emacsclient w"
    and a: "attempts (trace w1) = attempts (trace w)"
    by blast
  let ?E = "EmacsClient (LastFileCreated q) (PreviousFileCreated q) False"
  let ?w2 = "w1\<lparr>trace := trace w1 @ [?E]\<rparr>"
  from assms(1) e have never1: "\<forall>n. \<not> emacsclient w1 n" by simp
  then have never2: "\<forall>n. \<not> emacsclient ?w2 n" by simp
  have o: "openEmacs (LastFileCreated q) (PreviousFileCreated q) w1 = (False, ?w2)"
    using never1 by (simp add: openEmacs_eq)
  have r: "retry_loop 0 False (LastFileCreated q) (PreviousFileCreated q) ?w2 =
      (False, ?w2\<lparr>trace := trace ?w2 @
         concat (replicate 4 [Sleep DaemonOpenRetryTime, ?E])\<rparr>)"
    using retry_loop_never [OF never2, of 0 4] by simp
  let ?w3 = "?w2\<lparr>trace := trace ?w2 @ concat (replicate 4 [Sleep DaemonOpenRetryTime, ?E])\<rparr>"
  have run: "runDailyWorkflow projectPath m w = Returned ?w3 m1"
    using n p c q o r by (simp add: runDailyWorkflow_def os_Stat_def Let_def)
  have tr: "trace ?w3 = trace w1 @ [?E, Sleep DaemonOpenRetryTime, ?E, Sleep DaemonOpenRetryTime,
      ?E, Sleep DaemonOpenRetryTime, ?E, Sleep DaemonOpenRetryTime, ?E]"
    by (simp add: eval_nat_numeral)
  have "attempts (trace ?w3) = attempts (trace w) + 5"
    unfolding tr using a by (simp add: attempts_def)
  with run q tr a show ?thesis by blast
qed

text \<open>
  Claim C3, as stated: with a backend that no client reaches, the workflow makes exactly 4
  attempts to attach. The code makes 5: one before the loop (line 414) and one in each of
  the 4 rounds of the loop (lines 415 to 418).
\<close>

theorem runDailyWorkflow_five_attempts_counterexample:
  "attempts (trace (world_of (runDailyWorkflow ''proj'' example_model example_world))) = 5 \<and>
   attempts (trace (world_of (runDailyWorkflow ''proj'' example_model example_world))) \<noteq> 4"
proof -
  have 1: "\<forall>n. \<not> emacsclient example_world n" by (simp add: example_world_def)
  have 2: "files example_world ''proj'' \<noteq> None" by (simp add: example_world_def)
  have 3: "current_project example_model \<noteq> None" by (simp add: example_facts)
  have 4: "attempts (trace example_world) = 0" by (simp add: example_world_def attempts_def)
  from workflow_attach_trace [OF 1 2 3] 4 show ?thesis by auto
qed

text \<open>
  Claim C3, amended: in every run that gets as far as attaching (the project path exists,
  the cursor is on a project) and in which no attempt succeeds, the workflow makes exactly
  5 attempts, a first one and 4 more, with the fixed delay of \<^verbatim>\<open>DaemonOpenRetryTime\<close>
  seconds before each of the 4, and then returns without a panic. It has no result value
  in which to report the failure.
\<close>

theorem runDailyWorkflow_attach_exhausted:
  assumes "\<forall>n. \<not> emacsclient w n" and "files w projectPath \<noteq> None"
    and "current_project m \<noteq> None"
  shows "\<exists>w' m' q tr. runDailyWorkflow projectPath m w = Returned w' m' \<and>
           current_project m' = Some q \<and>
           trace w' = tr @
             [EmacsClient (LastFileCreated q) (PreviousFileCreated q) False,
              Sleep DaemonOpenRetryTime,
              EmacsClient (LastFileCreated q) (PreviousFileCreated q) False,
              Sleep DaemonOpenRetryTime,
              EmacsClient (LastFileCreated q) (PreviousFileCreated q) False,
              Sleep DaemonOpenRetryTime,
              EmacsClient (LastFileCreated q) (PreviousFileCreated q) False,
              Sleep DaemonOpenRetryTime,
              EmacsClient (LastFileCreated q) (PreviousFileCreated q) False] \<and>
           attempts tr = attempts (trace w) \<and>
           attempts (trace w') = attempts (trace w) + 5"
  using assms by (rule workflow_attach_trace)

theorem runDailyWorkflow_attach_exhausted_witness:
  "\<exists>w' m'. runDailyWorkflow ''proj'' example_model example_world = Returned w' m' \<and>
     attempts (trace w') = 5"
proof -
  have 1: "\<forall>n. \<not> emacsclient example_world n" by (simp add: example_world_def)
  have 2: "files example_world ''proj'' \<noteq> None" by (simp add: example_world_def)
  have 3: "current_project example_model \<noteq> None" by (simp add: example_facts)
  have 4: "attempts (trace example_world) = 0" by (simp add: example_world_def attempts_def)
  from runDailyWorkflow_attach_exhausted [OF 1 2 3] 4 show ?thesis by auto
qed

section \<open>Properties of the backend monitor\<close>









lemma log_examples:
  "files example_world LogFilePath \<noteq> Some Dir"
  "create_error example_world LogFilePath = None"
  "files no_desktop_world LogFilePath \<noteq> Some Dir"
  "create_error no_desktop_world LogFilePath = Some ENOENT"
  by (simp_all add: example_world_def no_desktop_world_def LogFilePath_def Separator_def)




text \<open>
  Claim C9. The claim is that no operation of the core ends the host process. This one
  does: \<^verbatim>\<open>runEmacsDaemon\<close> panics when the log file cannot be made (lines 514 to 517), as
  on any machine without the directory that the path names, and a panic in its goroutine
  ends the program. \<^verbatim>\<open>createDailyNote\<close> returns in the same situation (lines 433 to 436).
\<close>

theorem runEmacsDaemon_panics_without_log_directory:
  "runEmacsDaemon make_chan doom_stderr no_desktop_world =
     Crashed (LogFileError ENOENT) (no_desktop_world\<lparr>trace := [OsCreate LogFilePath False]\<rparr>)"
  using log_examples(3) log_examples(4)
  by (simp add: runEmacsDaemon_def os_Create_def)
     (simp add: no_desktop_world_def example_world_def)

end
